theory Spec2Isabelle
  imports Main "HOL-Library.AList"
begin

section \<open>Teacher Training API: documents, identifiers and the handlers of main.py\<close>

text \<open>
  The service is a set of HTTP handlers over a document store. The development embeds
  the handlers of \<^verbatim>\<open>main.py\<close> and the schemas of \<^verbatim>\<open>schemas.py\<close> as
  HOL functions. A Python \<^verbatim>\<open>dict\<close> is an association list in insertion order, an
  exception is the left summand of a sum type, and the store is passed explicitly.

  Characters are Isabelle's 8-bit \<open>char\<close>, one \<open>char\<close> standing for one character of a
  Python string (code points below 256); the three symbols of the diagnostic report, which
  lie above that range, are spelled as their UTF-8 bytes.
\<close>

subsection \<open>Python values and documents\<close>

datatype pyval =
    PNone
  | PBool bool
  | PInt int
  | PStr string
  | PObjectId string
  | PList "pyval list"
  | PDict "(string \<times> pyval) list"

type_synonym doc = "(string \<times> pyval) list"

text \<open>
  \<open>PObjectId h\<close> is a \<^verbatim>\<open>bson.ObjectId\<close>, held by its 24 lower-case hexadecimal digits
  \<open>h\<close>, which is what \<^verbatim>\<open>str\<close> returns on it.
\<close>

subsection \<open>The builtins \<^verbatim>\<open>str\<close> and \<^verbatim>\<open>repr\<close>\<close>

definition hexdigit :: "nat \<Rightarrow> char" where
  "hexdigit n = ''0123456789abcdef'' ! (n mod 16)"

fun digits10 :: "nat \<Rightarrow> string" where
  "digits10 n = (if n < 10 then [hexdigit n] else digits10 (n div 10) @ [hexdigit (n mod 10)])"

definition str_int :: "int \<Rightarrow> string" where
  "str_int i = (if i < 0 then CHR ''-'' # digits10 (nat (- i)) else digits10 (nat i))"

definition printable :: "char \<Rightarrow> bool" where
  \<comment> \<open>\<^verbatim>\<open>str.isprintable\<close> on the code points from 127 to 255\<close>
  "printable c = (let n = (of_char c :: nat) in 161 \<le> n \<and> n \<noteq> 173)"

definition repr_char :: "char \<Rightarrow> char \<Rightarrow> string" where
  "repr_char quote c =
     (let n = (of_char c :: nat) in
      if c = quote \<or> c = CHR 0x5C then [CHR 0x5C, c]
      else if n = 9 then [CHR 0x5C, CHR ''t'']
      else if n = 10 then [CHR 0x5C, CHR ''n'']
      else if n = 13 then [CHR 0x5C, CHR ''r'']
      else if n < 32 \<or> n = 127 then [CHR 0x5C, CHR ''x'', hexdigit (n div 16), hexdigit n]
      else if n < 127 then [c]
      else if printable c then [c]
      else [CHR 0x5C, CHR ''x'', hexdigit (n div 16), hexdigit n])"

definition repr_str :: "string \<Rightarrow> string" where
  "repr_str s =
     (let quote = (if CHR 0x27 \<in> set s \<and> CHR 0x22 \<notin> set s then CHR 0x22 else CHR 0x27)
      in [quote] @ concat (map (repr_char quote) s) @ [quote])"

fun join :: "string \<Rightarrow> string list \<Rightarrow> string" where
  "join sep [] = []"
| "join sep [x] = x"
| "join sep (x # y # ys) = x @ sep @ join sep (y # ys)"

fun repr :: "pyval \<Rightarrow> string" where
  "repr PNone = ''None''"
| "repr (PBool b) = (if b then ''True'' else ''False'')"
| "repr (PInt i) = str_int i"
| "repr (PStr s) = repr_str s"
| "repr (PObjectId h) = ''ObjectId('' @ repr_str h @ '')''"
| "repr (PList xs) = ''['' @ join '', '' (map repr xs) @ '']''"
| "repr (PDict kvs) =
     ''{'' @ join '', '' (map (\<lambda>kv. repr_str (fst kv) @ '': '' @ repr (snd kv)) kvs) @ ''}''"

fun str :: "pyval \<Rightarrow> string" where
  "str (PStr s) = s"
| "str (PObjectId h) = h"
| "str v = repr v"

subsection \<open>Dictionary operations\<close>

definition truthy_doc :: "doc option \<Rightarrow> bool" where
  \<comment> \<open>the truth value of a \<^verbatim>\<open>dict\<close> or \<^verbatim>\<open>None\<close>: false for \<^verbatim>\<open>None\<close> and for the empty dict\<close>
  "truthy_doc d = (case d of None \<Rightarrow> False | Some kvs \<Rightarrow> kvs \<noteq> [])"

definition dict_get :: "doc \<Rightarrow> string \<Rightarrow> pyval" where
  \<comment> \<open>\<^verbatim>\<open>d.get(k)\<close>: the value, or \<^verbatim>\<open>None\<close> when the key is missing\<close>
  "dict_get d k = (case map_of d k of None \<Rightarrow> PNone | Some v \<Rightarrow> v)"

subsection \<open>The identifier-remapping helper\<close>

fun to_str_id :: "doc option \<Rightarrow> doc option" where
  "to_str_id None = None"
| "to_str_id (Some doc) =
     (if doc = [] then Some doc
      else
        let d = doc;
            v = dict_get d ''_id''
        in if v \<noteq> PNone
           then Some (AList.delete ''_id'' (AList.update ''id'' (PStr (str v)) d))
           else Some d)"

text \<open>
  The first equation and the test \<open>doc = []\<close> are the guard \<^verbatim>\<open>if not doc: return doc\<close>,
  which holds for \<^verbatim>\<open>None\<close> and for the empty dict. \<open>v\<close> is the local \<^verbatim>\<open>_id\<close>.
\<close>

subsection \<open>Exceptions and response status\<close>

datatype exn =
    HTTPException int string
  | RequestValidationError string
  | Raised string

text \<open>
  \<open>HTTPException status_code detail\<close> is FastAPI's exception; \<open>RequestValidationError loc\<close>
  is what the framework raises when a request body does not fit the declared schema, with
  the name of the offending field; \<open>Raised msg\<close> is any other exception, held by its
  message \<^verbatim>\<open>str(e)\<close>. All three are subclasses of \<^verbatim>\<open>Exception\<close>, so an
  \<^verbatim>\<open>except Exception\<close> clause catches each of them. \<open>exn_str\<close> is \<^verbatim>\<open>str(e)\<close>; on an
  \<^verbatim>\<open>HTTPException\<close> it is the status code, a colon and the detail. \<open>status\<close> is the
  status of the response the framework sends: 200 when the handler returns, the code of
  an \<^verbatim>\<open>HTTPException\<close>, 422 for a validation error, 500 for anything else.
\<close>

fun exn_str :: "exn \<Rightarrow> string" where
  "exn_str (HTTPException status_code detail) = str_int status_code @ '': '' @ detail"
| "exn_str (RequestValidationError loc) = loc"
| "exn_str (Raised msg) = msg"

fun status :: "exn + 'a \<Rightarrow> int" where
  "status (Inr v) = 200"
| "status (Inl (HTTPException status_code detail)) = status_code"
| "status (Inl (RequestValidationError loc)) = 422"
| "status (Inl (Raised msg)) = 500"

fun except_Exception :: "int \<Rightarrow> exn + 'a \<Rightarrow> exn + 'a" where
  \<comment> \<open>\<^verbatim>\<open>except Exception as e: raise HTTPException(status_code=c, detail=str(e))\<close>\<close>
  "except_Exception c (Inr v) = Inr v"
| "except_Exception c (Inl e) = Inl (HTTPException c (exn_str e))"

fun then_do :: "exn + 'a \<Rightarrow> ('a \<Rightarrow> exn + 'b) \<Rightarrow> exn + 'b" where
  "then_do (Inl e) f = Inl e"
| "then_do (Inr v) f = f v"

subsection \<open>Object identifiers\<close>

definition is_hex :: "char \<Rightarrow> bool" where
  "is_hex c = (c \<in> set ''0123456789abcdefABCDEF'')"

definition lower_hex :: "char \<Rightarrow> char" where
  "lower_hex c = (case map_of (zip ''ABCDEF'' ''abcdef'') c of None \<Rightarrow> c | Some l \<Rightarrow> l)"

definition ObjectId :: "string \<Rightarrow> exn + pyval" where
  \<comment> \<open>\<^verbatim>\<open>bson.ObjectId(s)\<close> on a string: 24 hexadecimal digits, or \<^verbatim>\<open>InvalidId\<close>\<close>
  "ObjectId s =
     (if length s = 24 \<and> list_all is_hex s then Inr (PObjectId (map lower_hex s))
      else Inl (Raised (repr_str s @
        '' is not a valid ObjectId, it must be a 12-byte input or a 24-character hex string'')))"


subsection \<open>The document store\<close>

text \<open>
  A collection is the list of its documents in insertion order, a database maps a
  collection name to its collection (a collection never written is empty). The handle
  \<^verbatim>\<open>db\<close> of the program is \<^verbatim>\<open>None\<close> when the connection was not configured, so it is
  a \<open>database option\<close>. The store answers every operation of a handler: a stalled or
  dropped connection is looked at only by the diagnostic endpoint. An identifier that the
  store assigns on insert is an argument \<open>oid\<close> of the operation; the store rejects an
  insert whose \<^verbatim>\<open>_id\<close> is already in the collection (its unique index on \<^verbatim>\<open>_id\<close>).
\<close>

type_synonym collection = "doc list"
type_synonym database = "string \<Rightarrow> collection"

definition matches :: "doc \<Rightarrow> doc \<Rightarrow> bool" where
  \<comment> \<open>exact-match filter: every field of the filter is in the document with that value\<close>
  "matches flt d = list_all (\<lambda>kv. map_of d (fst kv) = Some (snd kv)) flt"

definition find_one :: "collection \<Rightarrow> doc \<Rightarrow> doc option" where
  "find_one c flt = List.find (matches flt) c"

definition find_docs :: "collection \<Rightarrow> doc \<Rightarrow> doc list" where
  "find_docs c flt = filter (matches flt) c"

definition count_documents :: "collection \<Rightarrow> doc \<Rightarrow> int" where
  "count_documents c flt = int (length (find_docs c flt))"

definition insert_one :: "collection \<Rightarrow> string \<Rightarrow> doc \<Rightarrow> exn + (pyval \<times> collection)" where
  "insert_one c oid d =
     (let d' = (if map_of d ''_id'' = None then d @ [(''_id'', PObjectId oid)] else d);
          inserted_id = dict_get d' ''_id''
      in if find_one c [(''_id'', inserted_id)] \<noteq> None
         then Inl (Raised (''E11000 duplicate key error: _id '' @ repr inserted_id))
         else Inr (inserted_id, c @ [d']))"

definition set_fields :: "doc \<Rightarrow> doc \<Rightarrow> doc" where
  \<comment> \<open>the update operator \<^verbatim>\<open>$set\<close>\<close>
  "set_fields fields d = fold (\<lambda>kv. AList.update (fst kv) (snd kv)) fields d"

fun update_first :: "doc \<Rightarrow> doc \<Rightarrow> collection \<Rightarrow> collection option" where
  "update_first flt fields [] = None"
| "update_first flt fields (d # ds) =
     (if matches flt d then Some (set_fields fields d # ds)
      else map_option ((#) d) (update_first flt fields ds))"

definition update_one :: "collection \<Rightarrow> string \<Rightarrow> doc \<Rightarrow> doc \<Rightarrow> bool \<Rightarrow> exn + collection" where
  \<comment> \<open>\<^verbatim>\<open>update_one(flt, {"$set": fields}, upsert=upsert)\<close>: the first match is updated in
      place; with no match and \<open>upsert\<close>, a document made of the filter's fields and the
      \<^verbatim>\<open>$set\<close> fields is inserted under the generated identifier \<open>oid\<close>\<close>
  "update_one c oid flt fields upsert =
     (case update_first flt fields c of
        Some c' \<Rightarrow> Inr c'
      | None \<Rightarrow>
          if upsert
          then then_do (insert_one c oid (set_fields fields flt)) (\<lambda>r. Inr (snd r))
          else Inr c)"

definition getitem :: "database option \<Rightarrow> string \<Rightarrow> exn + collection" where
  \<comment> \<open>\<^verbatim>\<open>db[name]\<close>; subscripting \<^verbatim>\<open>None\<close> raises \<^verbatim>\<open>TypeError\<close>\<close>
  "getitem db name =
     (case db of
        None \<Rightarrow> Inl (Raised ([CHR 0x27] @ ''NoneType'' @ [CHR 0x27] @ '' object is not subscriptable''))
      | Some st \<Rightarrow> Inr (st name))"

definition setitem :: "database option \<Rightarrow> string \<Rightarrow> collection \<Rightarrow> database option" where
  \<comment> \<open>the store after a write to one collection\<close>
  "setitem db name c = map_option (\<lambda>st. st(name := c)) db"

subsection \<open>The data access layer\<close>

text \<open>
  Modelled from the spec: \<^verbatim>\<open>create_document\<close> of \<^verbatim>\<open>database.py\<close>, which is not among
  the sources. The spec: "inserts one document into the named collection; returns the
  store-assigned identifier as a string. Fails with a StorageError if the underlying
  connection is unavailable or the write is rejected." The document is the dump of the
  record the caller passes.
\<close>

definition create_document ::
    "database option \<Rightarrow> string \<Rightarrow> string \<Rightarrow> doc \<Rightarrow> (exn + string) \<times> database option" where
  "create_document db collection_name oid data =
     (case db of
        None \<Rightarrow> (Inl (Raised ''Database not available''), db)
      | Some st \<Rightarrow>
          (case insert_one (st collection_name) oid data of
             Inl e \<Rightarrow> (Inl e, db)
           | Inr r \<Rightarrow> (Inr (str (fst r)), Some (st(collection_name := snd r)))))"

text \<open>
  Modelled from the spec: \<^verbatim>\<open>get_documents\<close> of \<^verbatim>\<open>database.py\<close>, which is not among
  the sources. The spec: "returns documents matching an exact-match filter (empty filter
  = all documents), capped at limit (default 50 when unspecified by the caller). No sort
  order is guaranteed beyond the store's natural order. Fails with a StorageError on
  connection failure." The spec gives \<open>limit\<close> as an optional positive integer and says
  nothing of a limit below 1; here the cap is applied to it as to any other.
\<close>

definition get_documents ::
    "database option \<Rightarrow> string \<Rightarrow> doc \<Rightarrow> int option \<Rightarrow> exn + doc list" where
  "get_documents db collection_name filter_dict limit =
     (case db of
        None \<Rightarrow> Inl (Raised ''Database not available'')
      | Some st \<Rightarrow>
          Inr (take (nat (case limit of None \<Rightarrow> 50 | Some l \<Rightarrow> l))
                 (find_docs (st collection_name) filter_dict)))"

subsection \<open>The schemas of schemas.py\<close>

record Timestamp =
  label :: string
  time :: int

record Resource =
  label :: string
  url :: string
  type :: "string option"

record Module =
  title :: string
  description :: "string option"
  video_url :: string
  thumbnail_url :: "string option"
  category :: "string option"
  timestamps :: "Timestamp list"
  resources :: "Resource list"

record Progress =
  user_id :: string
  module_id :: string
  last_position :: int
  completed :: bool

record Note =
  user_id :: string
  module_id :: string
  content :: string


text \<open>
  \<^verbatim>\<open>HttpUrl\<close> is a type of the validation library; what it accepts is the parameter
  \<open>http_url\<close> of the validators below, and an accepted URL is kept as its text.
  A field is validated against its declared type: the library's conversions between
  JSON kinds (a numeric string for an integer field, say) are not part of the model.
\<close>

fun as_str :: "pyval \<Rightarrow> string option" where
  "as_str (PStr s) = Some s"
| "as_str v = None"

fun as_optional_str :: "pyval \<Rightarrow> string option option" where
  "as_optional_str PNone = Some None"
| "as_optional_str (PStr s) = Some (Some s)"
| "as_optional_str v = None"

fun as_int_ge0 :: "pyval \<Rightarrow> int option" where
  "as_int_ge0 (PInt n) = (if 0 \<le> n then Some n else None)"
| "as_int_ge0 v = None"

fun as_bool :: "pyval \<Rightarrow> bool option" where
  "as_bool (PBool b) = Some b"
| "as_bool v = None"

fun as_url :: "(string \<Rightarrow> bool) \<Rightarrow> pyval \<Rightarrow> string option" where
  "as_url http_url (PStr s) = (if http_url s then Some s else None)"
| "as_url http_url v = None"

fun as_optional_url :: "(string \<Rightarrow> bool) \<Rightarrow> pyval \<Rightarrow> string option option" where
  "as_optional_url http_url PNone = Some None"
| "as_optional_url http_url (PStr s) = (if http_url s then Some (Some s) else None)"
| "as_optional_url http_url v = None"

definition prim :: "string \<Rightarrow> (pyval \<Rightarrow> 'a option) \<Rightarrow> pyval \<Rightarrow> exn + 'a" where
  "prim k parse v = (case parse v of None \<Rightarrow> Inl (RequestValidationError k) | Some x \<Rightarrow> Inr x)"

definition field :: "doc \<Rightarrow> string \<Rightarrow> 'a option \<Rightarrow> (pyval \<Rightarrow> exn + 'a) \<Rightarrow> exn + 'a" where
  \<comment> \<open>a declared field: \<open>dflt = None\<close> for \<^verbatim>\<open>Field(...)\<close> (required), \<open>Some x\<close> for a default\<close>
  "field d k dflt validate =
     (case map_of d k of
        None \<Rightarrow> (case dflt of None \<Rightarrow> Inl (RequestValidationError k) | Some x \<Rightarrow> Inr x)
      | Some v \<Rightarrow> validate v)"

fun each :: "(pyval \<Rightarrow> exn + 'a) \<Rightarrow> pyval list \<Rightarrow> exn + 'a list" where
  "each validate [] = Inr []"
| "each validate (v # vs) =
     then_do (validate v) (\<lambda>x. then_do (each validate vs) (\<lambda>xs. Inr (x # xs)))"

fun list_of :: "string \<Rightarrow> (pyval \<Rightarrow> exn + 'a) \<Rightarrow> pyval \<Rightarrow> exn + 'a list" where
  "list_of k validate (PList vs) = each validate vs"
| "list_of k validate v = Inl (RequestValidationError k)"

fun validate_Timestamp :: "pyval \<Rightarrow> exn + Timestamp" where
  "validate_Timestamp (PDict d) =
     then_do (field d ''label'' None (prim ''label'' as_str)) (\<lambda>l.
     then_do (field d ''time'' None (prim ''time'' as_int_ge0)) (\<lambda>t.
     Inr \<lparr>Timestamp.label = l, time = t\<rparr>))"
| "validate_Timestamp v = Inl (RequestValidationError ''timestamps'')"

fun validate_Resource :: "(string \<Rightarrow> bool) \<Rightarrow> pyval \<Rightarrow> exn + Resource" where
  "validate_Resource http_url (PDict d) =
     then_do (field d ''label'' None (prim ''label'' as_str)) (\<lambda>l.
     then_do (field d ''url'' None (prim ''url'' (as_url http_url))) (\<lambda>u.
     then_do (field d ''type'' (Some None) (prim ''type'' as_optional_str)) (\<lambda>t.
     Inr \<lparr>Resource.label = l, url = u, type = t\<rparr>)))"
| "validate_Resource http_url v = Inl (RequestValidationError ''resources'')"

fun validate_Module :: "(string \<Rightarrow> bool) \<Rightarrow> pyval \<Rightarrow> exn + Module" where
  "validate_Module http_url (PDict d) =
     then_do (field d ''title'' None (prim ''title'' as_str)) (\<lambda>ti.
     then_do (field d ''description'' (Some None) (prim ''description'' as_optional_str)) (\<lambda>de.
     then_do (field d ''video_url'' None (prim ''video_url'' (as_url http_url))) (\<lambda>vu.
     then_do (field d ''thumbnail_url'' (Some None)
                (prim ''thumbnail_url'' (as_optional_url http_url))) (\<lambda>tu.
     then_do (field d ''category'' (Some None) (prim ''category'' as_optional_str)) (\<lambda>ca.
     then_do (field d ''timestamps'' (Some []) (list_of ''timestamps'' validate_Timestamp)) (\<lambda>ts.
     then_do (field d ''resources'' (Some [])
                (list_of ''resources'' (validate_Resource http_url))) (\<lambda>rs.
     Inr \<lparr>title = ti, description = de, video_url = vu, thumbnail_url = tu,
          category = ca, timestamps = ts, resources = rs\<rparr>)))))))"
| "validate_Module http_url v = Inl (RequestValidationError ''body'')"

fun validate_Progress :: "pyval \<Rightarrow> exn + Progress" where
  "validate_Progress (PDict d) =
     then_do (field d ''user_id'' None (prim ''user_id'' as_str)) (\<lambda>u.
     then_do (field d ''module_id'' None (prim ''module_id'' as_str)) (\<lambda>m.
     then_do (field d ''last_position'' (Some 0) (prim ''last_position'' as_int_ge0)) (\<lambda>l.
     then_do (field d ''completed'' (Some False) (prim ''completed'' as_bool)) (\<lambda>c.
     Inr \<lparr>Progress.user_id = u, module_id = m, last_position = l, completed = c\<rparr>))))"
| "validate_Progress v = Inl (RequestValidationError ''body'')"

fun validate_Note :: "pyval \<Rightarrow> exn + Note" where
  "validate_Note (PDict d) =
     then_do (field d ''user_id'' None (prim ''user_id'' as_str)) (\<lambda>u.
     then_do (field d ''module_id'' None (prim ''module_id'' as_str)) (\<lambda>m.
     then_do (field d ''content'' (Some []) (prim ''content'' as_str)) (\<lambda>c.
     Inr \<lparr>Note.user_id = u, module_id = m, content = c\<rparr>)))"
| "validate_Note v = Inl (RequestValidationError ''body'')"

subsection \<open>\<^verbatim>\<open>model_dump\<close>\<close>

definition dump_optional :: "string option \<Rightarrow> pyval" where
  "dump_optional x = (case x of None \<Rightarrow> PNone | Some s \<Rightarrow> PStr s)"

definition Timestamp_dump :: "Timestamp \<Rightarrow> doc" where
  "Timestamp_dump t = [(''label'', PStr (Timestamp.label t)), (''time'', PInt (time t))]"

definition Resource_dump :: "Resource \<Rightarrow> doc" where
  "Resource_dump r =
     [(''label'', PStr (Resource.label r)), (''url'', PStr (url r)),
      (''type'', dump_optional (type r))]"

definition Module_dump :: "Module \<Rightarrow> doc" where
  "Module_dump m =
     [(''title'', PStr (title m)),
      (''description'', dump_optional (description m)),
      (''video_url'', PStr (video_url m)),
      (''thumbnail_url'', dump_optional (thumbnail_url m)),
      (''category'', dump_optional (category m)),
      (''timestamps'', PList (map (\<lambda>t. PDict (Timestamp_dump t)) (timestamps m))),
      (''resources'', PList (map (\<lambda>r. PDict (Resource_dump r)) (resources m)))]"

definition Progress_dump :: "Progress \<Rightarrow> doc" where
  "Progress_dump p =
     [(''user_id'', PStr (Progress.user_id p)), (''module_id'', PStr (Progress.module_id p)),
      (''last_position'', PInt (last_position p)), (''completed'', PBool (completed p))]"

definition Note_dump :: "Note \<Rightarrow> doc" where
  "Note_dump n =
     [(''user_id'', PStr (Note.user_id n)), (''module_id'', PStr (Note.module_id n)),
      (''content'', PStr (content n))]"


subsection \<open>The module endpoints\<close>

definition create_module ::
    "database option \<Rightarrow> string \<Rightarrow> Module \<Rightarrow> (exn + doc) \<times> database option" where
  "create_module db oid module =
     (let r = create_document db ''module'' oid (Module_dump module)
      in (except_Exception 500
            (then_do (fst r) (\<lambda>inserted_id. Inr [(''id'', PStr inserted_id)])),
          snd r))"

definition POST_api_modules ::
    "(string \<Rightarrow> bool) \<Rightarrow> database option \<Rightarrow> string \<Rightarrow> pyval
      \<Rightarrow> (exn + doc) \<times> database option" where
  \<comment> \<open>the route: the framework validates the body against \<^verbatim>\<open>Module\<close>, then calls the handler\<close>
  "POST_api_modules http_url db oid body =
     (case validate_Module http_url body of
        Inl e \<Rightarrow> (Inl e, db)
      | Inr module \<Rightarrow> create_module db oid module)"

definition list_modules :: "database option \<Rightarrow> int option \<Rightarrow> exn + doc option list" where
  "list_modules db limit =
     except_Exception 500
       (then_do (get_documents db ''module'' [] limit) (\<lambda>docs.
        Inr (map (\<lambda>d. to_str_id (Some d)) docs)))"

definition GET_api_modules :: "database option \<Rightarrow> int option \<Rightarrow> exn + doc option list" where
  \<comment> \<open>the route: a request without the query parameter gets the default \<^verbatim>\<open>limit = 50\<close>\<close>
  "GET_api_modules db limit_param =
     list_modules db (case limit_param of None \<Rightarrow> Some 50 | Some l \<Rightarrow> Some l)"

definition get_module :: "database option \<Rightarrow> string \<Rightarrow> exn + doc option" where
  "get_module db module_id' =
     except_Exception 400
       (then_do (getitem db ''module'') (\<lambda>c.
        then_do (ObjectId module_id') (\<lambda>oid.
        let doc = find_one c [(''_id'', oid)]
        in if \<not> truthy_doc doc then Inl (HTTPException 404 ''Module not found'')
           else Inr (to_str_id doc))))"

subsection \<open>The progress and notes endpoints\<close>

definition save_progress ::
    "database option \<Rightarrow> string \<Rightarrow> Progress \<Rightarrow> (exn + doc option) \<times> database option" where
  "save_progress db oid progress =
     (let flt = [(''user_id'', PStr (Progress.user_id progress)),
                 (''module_id'', PStr (Progress.module_id progress))]
      in case then_do (getitem db ''progress'') (\<lambda>c.
                update_one c oid flt (Progress_dump progress) True) of
           Inl e \<Rightarrow> (except_Exception 500 (Inl e), db)
         | Inr c' \<Rightarrow>
             (let db' = setitem db ''progress'' c'
              in (except_Exception 500
                    (then_do (getitem db' ''progress'') (\<lambda>c.
                     Inr (to_str_id (find_one c flt)))),
                  db')))"

definition get_progress :: "database option \<Rightarrow> string \<Rightarrow> string \<Rightarrow> exn + doc option" where
  "get_progress db user_id' module_id' =
     except_Exception 500
       (then_do (getitem db ''progress'') (\<lambda>c.
        let doc = find_one c [(''user_id'', PStr user_id'), (''module_id'', PStr module_id')]
        in if \<not> truthy_doc doc
           then Inr (Some [(''user_id'', PStr user_id'), (''module_id'', PStr module_id'),
                           (''last_position'', PInt 0), (''completed'', PBool False)])
           else Inr (to_str_id doc)))"

definition save_note ::
    "database option \<Rightarrow> string \<Rightarrow> Note \<Rightarrow> (exn + doc option) \<times> database option" where
  "save_note db oid note =
     (let flt = [(''user_id'', PStr (Note.user_id note)),
                 (''module_id'', PStr (Note.module_id note))]
      in case then_do (getitem db ''note'') (\<lambda>c.
                update_one c oid flt (Note_dump note) True) of
           Inl e \<Rightarrow> (except_Exception 500 (Inl e), db)
         | Inr c' \<Rightarrow>
             (let db' = setitem db ''note'' c'
              in (except_Exception 500
                    (then_do (getitem db' ''note'') (\<lambda>c.
                     Inr (to_str_id (find_one c flt)))),
                  db')))"

definition get_note :: "database option \<Rightarrow> string \<Rightarrow> string \<Rightarrow> exn + doc option" where
  "get_note db user_id' module_id' =
     except_Exception 500
       (then_do (getitem db ''note'') (\<lambda>c.
        let doc = find_one c [(''user_id'', PStr user_id'), (''module_id'', PStr module_id')]
        in if \<not> truthy_doc doc
           then Inr (Some [(''user_id'', PStr user_id'), (''module_id'', PStr module_id'),
                           (''content'', PStr [])])
           else Inr (to_str_id doc)))"

subsection \<open>Seeding\<close>

text \<open>
  The three sample modules. Their literal arguments fit the declared fields (every
  \<^verbatim>\<open>time\<close> is non-negative, every URL is an absolute \<^verbatim>\<open>https\<close> URL), so building them
  raises nothing.
\<close>

definition samples :: "Module list" where
  "samples =
     [\<lparr>title = ''Classroom Management: Routines that Work'',
       description = Some ''Establishing smooth routines to reduce disruptions.'',
       video_url = ''https://samplelib.com/lib/preview/mp4/sample-5s.mp4'',
       thumbnail_url = Some ''https://images.unsplash.com/photo-1529070538774-1843cb3265df?w=1200&q=80&auto=format&fit=crop'',
       category = Some ''Classroom'',
       timestamps =
         [\<lparr>Timestamp.label = ''Overview'', time = 5\<rparr>,
          \<lparr>Timestamp.label = ''Entry Routine'', time = 20\<rparr>,
          \<lparr>Timestamp.label = ''Transitions'', time = 40\<rparr>],
       resources =
         [\<lparr>Resource.label = ''Routine Checklist (PDF)'',
           url = ''https://www.w3.org/WAI/ER/tests/xhtml/testfiles/resources/pdf/dummy.pdf'',
           type = Some ''pdf''\<rparr>]\<rparr>,
      \<lparr>title = ''Differentiation: Tiered Tasks'',
       description = Some ''Design assignments that meet students where they are.'',
       video_url = ''https://samplelib.com/lib/preview/mp4/sample-5s.mp4'',
       thumbnail_url = Some ''https://images.unsplash.com/photo-1509062522246-3755977927d7?w=1200&q=80&auto=format&fit=crop'',
       category = Some ''Instruction'',
       timestamps =
         [\<lparr>Timestamp.label = ''Why Tiering'', time = 6\<rparr>,
          \<lparr>Timestamp.label = ''Examples'', time = 18\<rparr>],
       resources =
         [\<lparr>Resource.label = ''Tiered Task Templates'',
           url = ''https://www.africau.edu/images/default/sample.pdf'',
           type = Some ''pdf''\<rparr>]\<rparr>,
      \<lparr>title = ''Assessment: Quick Formative Checks'',
       description = Some ''Gather real-time data to adjust instruction.'',
       video_url = ''https://samplelib.com/lib/preview/mp4/sample-5s.mp4'',
       thumbnail_url = Some ''https://images.unsplash.com/photo-1523580846011-d3a5bc25702b?w=1200&q=80&auto=format&fit=crop'',
       category = Some ''Assessment'',
       timestamps =
         [\<lparr>Timestamp.label = ''Entry Tickets'', time = 8\<rparr>,
          \<lparr>Timestamp.label = ''Exit Tickets'', time = 16\<rparr>],
       resources =
         [\<lparr>Resource.label = ''Formative Check Bank'',
           url = ''https://www.w3.org/WAI/ER/tests/xhtml/testfiles/resources/pdf/dummy.pdf'',
           type = Some ''pdf''\<rparr>]\<rparr>]"

fun create_all ::
    "database option \<Rightarrow> (string \<times> Module) list \<Rightarrow> (exn + unit) \<times> database option" where
  \<comment> \<open>\<^verbatim>\<open>for m in samples: create_document("module", m)\<close>, each insert with its identifier\<close>
  "create_all db [] = (Inr (), db)"
| "create_all db (om # oms) =
     (case create_document db ''module'' (fst om) (Module_dump (snd om)) of
        (Inl e, db') \<Rightarrow> (Inl e, db')
      | (Inr inserted_id, db') \<Rightarrow> create_all db' oms)"

text \<open>
  The handler tests the handle itself for truth (\<^verbatim>\<open>if db\<close>), where the diagnostic
  endpoint compares it with \<^verbatim>\<open>None\<close>. \<^verbatim>\<open>None\<close> is false; what the test answers on a
  handle that is not \<^verbatim>\<open>None\<close> is up to the class of the handle, which \<^verbatim>\<open>database.py\<close>
  declares and the sources do not show. It is the parameter \<open>handle_bool\<close>: \<open>Inr True\<close>
  for a class that leaves truth testing alone, \<open>Inl e\<close> for one whose \<^verbatim>\<open>__bool__\<close> raises
  \<open>e\<close>. The calls that \<^verbatim>\<open>main.py\<close> makes on the handle (\<^verbatim>\<open>list_collection_names\<close>,
  \<^verbatim>\<open>db[name]\<close> with \<^verbatim>\<open>count_documents\<close>, \<^verbatim>\<open>find_one\<close>, \<^verbatim>\<open>update_one\<close>) are those of
  the driver's \<^verbatim>\<open>Database\<close>, whose truth test raises \<^verbatim>\<open>NotImplementedError\<close>.
\<close>

definition truth_value :: "exn + bool \<Rightarrow> database option \<Rightarrow> exn + bool" where
  "truth_value handle_bool db = (case db of None \<Rightarrow> Inr False | Some st \<Rightarrow> handle_bool)"

definition seed_modules ::
    "exn + bool \<Rightarrow> database option \<Rightarrow> string \<Rightarrow> string \<Rightarrow> string
      \<Rightarrow> (exn + doc) \<times> database option" where
  \<comment> \<open>\<open>oid1\<close>, \<open>oid2\<close>, \<open>oid3\<close>: the identifiers the store assigns to the three inserts\<close>
  "seed_modules handle_bool db oid1 oid2 oid3 =
     (case then_do (truth_value handle_bool db) (\<lambda>t.
             if t then then_do (getitem db ''module'') (\<lambda>c. Inr (count_documents c []))
             else Inr 0) of
        Inl e \<Rightarrow> (except_Exception 500 (Inl e), db)
      | Inr existing \<Rightarrow>
          if existing > 0
          then (Inr [(''status'', PStr ''ok''), (''message'', PStr ''Modules already exist''),
                     (''count'', PInt existing)], db)
          else
            (let r = create_all db (zip [oid1, oid2, oid3] samples)
             in (except_Exception 500
                   (then_do (fst r) (\<lambda>u.
                    Inr [(''status'', PStr ''ok''),
                         (''inserted'', PInt (int (length samples)))])),
                 snd r)))"

subsection \<open>The diagnostic endpoint\<close>

text \<open>
  The report uses three symbols above the 8-bit range (a check mark, a cross mark and a
  warning sign followed by a variation selector); they are spelled here as their UTF-8
  bytes. What the handle answers when probed is an argument: \<open>name_attr\<close> is the
  attribute \<^verbatim>\<open>db.name\<close> (\<open>None\<close> when the handle has no such attribute,
  \<open>Some (Inl e)\<close> when reading it raises \<open>e\<close>), \<open>listing\<close> is the outcome of
  \<^verbatim>\<open>db.list_collection_names()\<close>. The last two arguments are the environment variables.
\<close>

definition check_mark :: string where
  "check_mark = [CHR 0xE2, CHR 0x9C, CHR 0x85]"

definition cross_mark :: string where
  "cross_mark = [CHR 0xE2, CHR 0x9D, CHR 0x8C]"

definition warning_sign :: string where
  "warning_sign = [CHR 0xE2, CHR 0x9A, CHR 0xA0, CHR 0xEF, CHR 0xB8, CHR 0x8F]"

record report =
  backend :: string
  database :: string
  database_url :: pyval
  database_name :: pyval
  connection_status :: string
  collections :: "string list"

definition getenv_set :: "string option \<Rightarrow> string" where
  \<comment> \<open>\<^verbatim>\<open>"... Set" if os.getenv(name) else "... Not Set"\<close>: unset and empty are both false\<close>
  "getenv_set var =
     (if var \<noteq> None \<and> var \<noteq> Some [] then check_mark @ '' Set''
      else cross_mark @ '' Not Set'')"

definition test_database_listing :: "exn + string list \<Rightarrow> report \<Rightarrow> exn option \<times> report" where
  \<comment> \<open>from \<^verbatim>\<open>response["connection_status"] = "Connected"\<close> on: the inner \<^verbatim>\<open>try\<close>, which
      lets no exception out\<close>
  "test_database_listing listing response =
     (let response = response\<lparr>connection_status := ''Connected''\<rparr>
      in case listing of
           Inr collections' \<Rightarrow>
             (None, response\<lparr>collections := take 10 collections',
                              database := check_mark @ '' Connected & Working''\<rparr>)
         | Inl e \<Rightarrow>
             (None, response\<lparr>database :=
                warning_sign @ ''  Connected but Error: '' @ take 50 (exn_str e)\<rparr>))"

definition test_database_try ::
    "database option \<Rightarrow> (exn + pyval) option \<Rightarrow> exn + string list \<Rightarrow> string option
      \<Rightarrow> report \<Rightarrow> exn option \<times> report" where
  \<comment> \<open>the body of the outer \<^verbatim>\<open>try\<close>: the exception that left it, if any, and the report
      as it stands then\<close>
  "test_database_try db name_attr listing DATABASE_URL response =
     (if db \<noteq> None
      then
        let response = response\<lparr>database := check_mark @ '' Available''\<rparr>;
            response = response\<lparr>database_url := PStr (getenv_set DATABASE_URL)\<rparr>
        in case name_attr of
             Some (Inl e) \<Rightarrow> (Some e, response)
           | Some (Inr v) \<Rightarrow> test_database_listing listing (response\<lparr>database_name := v\<rparr>)
           | None \<Rightarrow>
               test_database_listing listing
                 (response\<lparr>database_name := PStr (check_mark @ '' Connected'')\<rparr>)
      else (None, response\<lparr>database := warning_sign @ ''  Available but not initialized''\<rparr>))"

definition test_database ::
    "database option \<Rightarrow> (exn + pyval) option \<Rightarrow> exn + string list \<Rightarrow> string option
      \<Rightarrow> string option \<Rightarrow> exn + report" where
  "test_database db name_attr listing DATABASE_URL DATABASE_NAME =
     (let response = \<lparr>backend = check_mark @ '' Running'',
                       database = cross_mark @ '' Not Available'',
                       database_url = PNone,
                       database_name = PNone,
                       connection_status = ''Not Connected'',
                       collections = []\<rparr>;
          tried = test_database_try db name_attr listing DATABASE_URL response;
          response =
            (case fst tried of
               None \<Rightarrow> snd tried
             | Some e \<Rightarrow>
                 (snd tried)\<lparr>database := cross_mark @ '' Error: '' @ take 50 (exn_str e)\<rparr>);
          response = response\<lparr>database_url := PStr (getenv_set DATABASE_URL)\<rparr>;
          response = response\<lparr>database_name := PStr (getenv_set DATABASE_NAME)\<rparr>
      in Inr response)"


subsection \<open>Sequences of requests\<close>

definition save_progress_seq ::
    "database option \<Rightarrow> (string \<times> Progress) list \<Rightarrow> database option" where
  \<comment> \<open>the store after a sequence of POSTs to \<^verbatim>\<open>/api/progress\<close>, each paired with the
      identifier the store assigns should the upsert insert\<close>
  "save_progress_seq db posts =
     fold (\<lambda>post db'. snd (save_progress db' (fst post) (snd post))) posts db"

section \<open>Properties\<close>

subsection \<open>Lookups in a collection\<close>

lemma find_one_None: "find_one c flt = None \<longleftrightarrow> (\<forall>d \<in> set c. \<not> matches flt d)"
  by (auto simp: find_one_def find_None_iff)

lemma matches_single: "matches [(k, v)] d \<longleftrightarrow> map_of d k = Some v"
  by (simp add: matches_def)

lemma matches_pair:
  "matches [(k1, v1), (k2, v2)] d \<longleftrightarrow> map_of d k1 = Some v1 \<and> map_of d k2 = Some v2"
  by (simp add: matches_def)

subsection \<open>Identifier remapping\<close>

text \<open>
  C10, as stated, fails: a document whose \<^verbatim>\<open>_id\<close> field holds \<^verbatim>\<open>None\<close> contains the field,
  and \<^verbatim>\<open>to_str_id\<close> returns it as it is, the field still there and no \<^verbatim>\<open>id\<close> added.
\<close>

theorem to_str_id_None_id_kept:
  "to_str_id (Some [(''_id'', PNone), (''title'', PStr ''Intro'')])
     = Some [(''_id'', PNone), (''title'', PStr ''Intro'')]"
  by (simp add: dict_get_def)

text \<open>
  C10, amended: if the document has an \<^verbatim>\<open>_id\<close> field whose value is not \<^verbatim>\<open>None\<close>, the
  result has that field removed, has a string field \<^verbatim>\<open>id\<close> equal to the textual
  representation of \<^verbatim>\<open>_id\<close>, and has every other field unchanged; if the document is
  empty, lacks \<^verbatim>\<open>_id\<close> or holds \<^verbatim>\<open>None\<close> under \<^verbatim>\<open>_id\<close>, it is returned unchanged, with
  no \<^verbatim>\<open>id\<close> field added; \<^verbatim>\<open>None\<close> in place of a document is returned as it is.
\<close>

theorem to_str_id_remap:
  "(map_of d ''_id'' = Some v \<and> v \<noteq> PNone \<longrightarrow>
      (\<exists>r. to_str_id (Some d) = Some r
          \<and> map_of r ''_id'' = None
          \<and> map_of r ''id'' = Some (PStr (str v))
          \<and> (\<forall>k. k \<noteq> ''_id'' \<and> k \<noteq> ''id'' \<longrightarrow> map_of r k = map_of d k)))
   \<and> (d = [] \<or> map_of d ''_id'' = None \<or> map_of d ''_id'' = Some PNone \<longrightarrow>
        to_str_id (Some d) = Some d)
   \<and> to_str_id None = None"
  by (auto simp: dict_get_def AList.delete_conv' AList.update_conv' Let_def)

theorem to_str_id_remap_witness:
  "map_of [(''_id'', PObjectId ''507f1f77bcf86cd799439011''), (''title'', PStr ''Intro'')] ''_id''
     = Some (PObjectId ''507f1f77bcf86cd799439011'')
   \<and> PObjectId ''507f1f77bcf86cd799439011'' \<noteq> PNone
   \<and> (\<exists>r. to_str_id (Some [(''_id'', PObjectId ''507f1f77bcf86cd799439011''),
                            (''title'', PStr ''Intro'')]) = Some r
          \<and> map_of r ''_id'' = None
          \<and> map_of r ''id'' = Some (PStr ''507f1f77bcf86cd799439011'')
          \<and> (\<forall>k. k \<noteq> ''_id'' \<and> k \<noteq> ''id'' \<longrightarrow>
                 map_of r k = map_of [(''_id'', PObjectId ''507f1f77bcf86cd799439011''),
                                      (''title'', PStr ''Intro'')] k))"
  using to_str_id_remap [of "[(''_id'', PObjectId ''507f1f77bcf86cd799439011''),
                              (''title'', PStr ''Intro'')]"
                            "PObjectId ''507f1f77bcf86cd799439011''"]
  by simp

subsection \<open>Looking one module up\<close>

text \<open>
  C1 asks for status 404 when no module has the identifier. The handler raises the 404
  inside its own \<^verbatim>\<open>try\<close>, whose \<^verbatim>\<open>except Exception\<close> catches it and raises a 400 in its
  place: on a well-formed identifier and an empty collection the status is 400.
\<close>

theorem get_module_absent_400:
  "status (get_module (Some (\<lambda>name. [])) ''507f1f77bcf86cd799439011'') = 400"
  by (simp add: get_module_def getitem_def ObjectId_def is_hex_def find_one_def
      truthy_doc_def)

lemma get_module_status: "status (get_module db mid) = 200 \<or> status (get_module db mid) = 400"
  unfolding get_module_def
  by (cases "getitem db ''module''"; cases "ObjectId mid") (auto simp: Let_def)

subsection \<open>Defaults for a pair never written\<close>

text \<open>
  C3: with the store at hand and no document of the collection carrying the pair
  \<open>(user_id, module_id)\<close>, \<^verbatim>\<open>GET /api/progress\<close> answers 200 with exactly
  \<^verbatim>\<open>{user_id, module_id, last_position: 0, completed: false}\<close> and \<^verbatim>\<open>GET /api/notes\<close>
  answers 200 with exactly \<^verbatim>\<open>{user_id, module_id, content: ""}\<close>; neither record has an
  \<^verbatim>\<open>id\<close> field and neither lookup is an error.
\<close>

theorem get_defaults_when_absent:
  "((\<forall>d \<in> set (st ''progress'').
        \<not> (map_of d ''user_id'' = Some (PStr u) \<and> map_of d ''module_id'' = Some (PStr m)))
     \<longrightarrow> get_progress (Some st) u m =
           Inr (Some [(''user_id'', PStr u), (''module_id'', PStr m),
                      (''last_position'', PInt 0), (''completed'', PBool False)])
         \<and> status (get_progress (Some st) u m) = 200)
   \<and> ((\<forall>d \<in> set (st ''note'').
        \<not> (map_of d ''user_id'' = Some (PStr u) \<and> map_of d ''module_id'' = Some (PStr m)))
     \<longrightarrow> get_note (Some st) u m =
           Inr (Some [(''user_id'', PStr u), (''module_id'', PStr m), (''content'', PStr [])])
         \<and> status (get_note (Some st) u m) = 200)
   \<and> map_of [(''user_id'', PStr u), (''module_id'', PStr m),
              (''last_position'', PInt 0), (''completed'', PBool False)] ''id'' = None
   \<and> map_of [(''user_id'', PStr u), (''module_id'', PStr m), (''content'', PStr [])] ''id''
       = None"
proof -
  have none: "find_one c [(''user_id'', PStr u), (''module_id'', PStr m)] = None"
    if "\<forall>d \<in> set c. \<not> (map_of d ''user_id'' = Some (PStr u)
                           \<and> map_of d ''module_id'' = Some (PStr m))"
    for c
    using that by (simp add: find_one_None matches_pair)
  show ?thesis
    by (auto simp: get_progress_def get_note_def getitem_def truthy_doc_def none)
qed

theorem get_defaults_when_absent_witness:
  "list_all (\<lambda>d. \<not> (map_of d ''user_id'' = Some (PStr ''alice'')
                      \<and> map_of d ''module_id'' = Some (PStr ''m1'')))
      ((\<lambda>name. if name = ''progress''
                then [[(''_id'', PObjectId ''507f1f77bcf86cd799439011''),
                       (''user_id'', PStr ''bob''), (''module_id'', PStr ''m1''),
                       (''last_position'', PInt 7), (''completed'', PBool False)]]
                else []) ''progress'')
   \<and> get_progress
        (Some (\<lambda>name. if name = ''progress''
                       then [[(''_id'', PObjectId ''507f1f77bcf86cd799439011''),
                              (''user_id'', PStr ''bob''), (''module_id'', PStr ''m1''),
                              (''last_position'', PInt 7), (''completed'', PBool False)]]
                       else [])) ''alice'' ''m1''
       = Inr (Some [(''user_id'', PStr ''alice''), (''module_id'', PStr ''m1''),
                    (''last_position'', PInt 0), (''completed'', PBool False)])
   \<and> get_note
        (Some (\<lambda>name. if name = ''progress''
                       then [[(''_id'', PObjectId ''507f1f77bcf86cd799439011''),
                              (''user_id'', PStr ''bob''), (''module_id'', PStr ''m1''),
                              (''last_position'', PInt 7), (''completed'', PBool False)]]
                       else [])) ''alice'' ''m1''
       = Inr (Some [(''user_id'', PStr ''alice''), (''module_id'', PStr ''m1''),
                    (''content'', PStr [])])"
  using get_defaults_when_absent
    [of "\<lambda>name. if name = ''progress''
                 then [[(''_id'', PObjectId ''507f1f77bcf86cd799439011''),
                        (''user_id'', PStr ''bob''), (''module_id'', PStr ''m1''),
                        (''last_position'', PInt 7), (''completed'', PBool False)]]
                 else []" "''alice''" "''m1''"]
  by simp


subsection \<open>Request validation\<close>

lemma then_do_Inr_iff: "then_do x f = Inr y \<longleftrightarrow> (\<exists>v. x = Inr v \<and> f v = Inr y)"
  by (cases x) auto

lemma then_do_Inl_iff: "then_do x f = Inl e \<longleftrightarrow> x = Inl e \<or> (\<exists>v. x = Inr v \<and> f v = Inl e)"
  by (cases x) auto

lemma prim_Inl: "prim k parse v = Inl e \<Longrightarrow> \<exists>loc. e = RequestValidationError loc"
  by (auto simp: prim_def split: option.splits)

lemma field_Inl:
  "field d k dflt validate = Inl e \<Longrightarrow> (\<And>v e. validate v = Inl e \<Longrightarrow> \<exists>loc. e = RequestValidationError loc)
   \<Longrightarrow> \<exists>loc. e = RequestValidationError loc"
  by (auto simp: field_def split: option.splits)

lemma each_Inl:
  "each validate vs = Inl e \<Longrightarrow> (\<And>v e. validate v = Inl e \<Longrightarrow> \<exists>loc. e = RequestValidationError loc)
   \<Longrightarrow> \<exists>loc. e = RequestValidationError loc"
  by (induction vs arbitrary: e) (auto simp: then_do_Inl_iff)

lemma list_of_Inl:
  "list_of k validate v = Inl e \<Longrightarrow> (\<And>v e. validate v = Inl e \<Longrightarrow> \<exists>loc. e = RequestValidationError loc)
   \<Longrightarrow> \<exists>loc. e = RequestValidationError loc"
  by (cases v) (auto dest: each_Inl)

lemma validate_Timestamp_Inl:
  "validate_Timestamp v = Inl e \<Longrightarrow> \<exists>loc. e = RequestValidationError loc"
  by (cases v) (auto simp: then_do_Inl_iff dest!: field_Inl prim_Inl)

lemma validate_Resource_Inl:
  "validate_Resource http_url v = Inl e \<Longrightarrow> \<exists>loc. e = RequestValidationError loc"
  by (cases v) (auto simp: then_do_Inl_iff dest!: field_Inl prim_Inl)

lemma validate_Module_Inl:
  "validate_Module http_url v = Inl e \<Longrightarrow> \<exists>loc. e = RequestValidationError loc"
  by (cases v)
    (auto simp: then_do_Inl_iff
      dest!: field_Inl prim_Inl list_of_Inl validate_Timestamp_Inl validate_Resource_Inl)

lemma as_str_Some: "as_str v = Some s \<longleftrightarrow> v = PStr s"
  by (cases v) auto

lemma as_url_Some: "as_url http_url v = Some s \<longleftrightarrow> v = PStr s \<and> http_url s"
  by (cases v) auto

lemma as_optional_url_Some:
  "as_optional_url http_url v = Some x \<longleftrightarrow>
     (v = PNone \<and> x = None) \<or> (\<exists>s. v = PStr s \<and> http_url s \<and> x = Some s)"
  by (cases v) auto

lemma each_Inr:
  "each validate vs = Inr xs \<Longrightarrow> v \<in> set vs \<Longrightarrow> \<exists>x. validate v = Inr x"
  by (induction vs arbitrary: xs) (auto simp: then_do_Inr_iff)

lemma validate_Resource_Inr:
  "validate_Resource http_url (PDict f) = Inr r \<Longrightarrow>
     \<exists>s. map_of f ''url'' = Some (PStr s) \<and> http_url s"
  by (auto simp: then_do_Inr_iff field_def prim_def as_url_Some split: option.splits)

lemma validate_Timestamp_Inr:
  "validate_Timestamp (PDict t) = Inr r \<Longrightarrow> \<exists>s. map_of t ''label'' = Some (PStr s)"
  by (auto simp: then_do_Inr_iff field_def prim_def as_str_Some split: option.splits)

lemma validate_Module_Inr:
  assumes "validate_Module http_url (PDict d) = Inr m"
  shows "\<exists>s. map_of d ''video_url'' = Some (PStr s) \<and> http_url s"
    and "\<And>s. map_of d ''thumbnail_url'' = Some (PStr s) \<Longrightarrow> http_url s"
    and "\<And>rs f. map_of d ''resources'' = Some (PList rs) \<Longrightarrow> PDict f \<in> set rs
           \<Longrightarrow> \<exists>s. map_of f ''url'' = Some (PStr s) \<and> http_url s"
    and "\<And>ts t. map_of d ''timestamps'' = Some (PList ts) \<Longrightarrow> PDict t \<in> set ts
           \<Longrightarrow> \<exists>s. map_of t ''label'' = Some (PStr s)"
proof -
  from assms obtain ts rs where
    vu: "field d ''video_url'' None (prim ''video_url'' (as_url http_url)) = Inr (video_url m)"
    and tu: "field d ''thumbnail_url'' (Some None)
               (prim ''thumbnail_url'' (as_optional_url http_url)) = Inr (thumbnail_url m)"
    and ts: "field d ''timestamps'' (Some []) (list_of ''timestamps'' validate_Timestamp) = Inr ts"
    and rs: "field d ''resources'' (Some [])
               (list_of ''resources'' (validate_Resource http_url)) = Inr rs"
    by (auto simp: then_do_Inr_iff)
  from vu show "\<exists>s. map_of d ''video_url'' = Some (PStr s) \<and> http_url s"
    by (auto simp: field_def prim_def as_url_Some split: option.splits)
  from tu show "http_url s" if "map_of d ''thumbnail_url'' = Some (PStr s)" for s
    using that by (auto simp: field_def prim_def split: option.splits if_splits)
  from rs show "\<exists>s. map_of f ''url'' = Some (PStr s) \<and> http_url s"
    if "map_of d ''resources'' = Some (PList rs')" "PDict f \<in> set rs'" for rs' f
    using that by (auto simp: field_def dest!: each_Inr validate_Resource_Inr)
  from ts show "\<exists>s. map_of t ''label'' = Some (PStr s)"
    if "map_of d ''timestamps'' = Some (PList ts')" "PDict t \<in> set ts'" for ts' t
    using that by (auto simp: field_def dest!: each_Inr validate_Timestamp_Inr)
qed

lemma POST_rejected:
  "validate_Module http_url body = Inl e \<Longrightarrow>
     \<exists>loc. POST_api_modules http_url db oid body = (Inl (RequestValidationError loc), db)"
  by (auto simp: POST_api_modules_def dest: validate_Module_Inl)

text \<open>
  C6: a Module creation request whose payload lacks \<^verbatim>\<open>video_url\<close>, or in which
  \<^verbatim>\<open>video_url\<close>, \<^verbatim>\<open>thumbnail_url\<close> or the \<^verbatim>\<open>url\<close> of a resource is a string that
  \<^verbatim>\<open>HttpUrl\<close> does not accept, is rejected with the validation error of status 422, and
  the store is left as it was.
\<close>

theorem POST_api_modules_rejects_bad_urls:
  assumes "map_of d ''video_url'' = None
     \<or> (\<exists>s. map_of d ''video_url'' = Some (PStr s) \<and> \<not> http_url s)
     \<or> (\<exists>s. map_of d ''thumbnail_url'' = Some (PStr s) \<and> \<not> http_url s)
     \<or> (\<exists>rs f s. map_of d ''resources'' = Some (PList rs) \<and> PDict f \<in> set rs
            \<and> map_of f ''url'' = Some (PStr s) \<and> \<not> http_url s)"
  shows "\<exists>loc. POST_api_modules http_url db oid (PDict d) = (Inl (RequestValidationError loc), db)
            \<and> status (fst (POST_api_modules http_url db oid (PDict d))) = 422"
proof (cases "validate_Module http_url (PDict d)")
  case (Inl e)
  from POST_rejected [OF this, of db oid] show ?thesis by auto
next
  case (Inr m)
  from validate_Module_Inr [OF this] assms show ?thesis
    by fastforce
qed

theorem POST_api_modules_rejects_bad_urls_witness:
  "map_of [(''title'', PStr ''Intro'')] ''video_url'' = None
   \<and> (\<exists>loc. POST_api_modules (\<lambda>s. take 8 s = ''https://'') (Some (\<lambda>name. []))
               ''507f1f77bcf86cd799439011'' (PDict [(''title'', PStr ''Intro'')])
             = (Inl (RequestValidationError loc), Some (\<lambda>name. []))
           \<and> status (fst (POST_api_modules (\<lambda>s. take 8 s = ''https://'') (Some (\<lambda>name. []))
                 ''507f1f77bcf86cd799439011'' (PDict [(''title'', PStr ''Intro'')]))) = 422)"
  using POST_api_modules_rejects_bad_urls
    [of "[(''title'', PStr ''Intro'')]" "\<lambda>s. take 8 s = ''https://''"
        "Some (\<lambda>name. [])" "''507f1f77bcf86cd799439011''"]
  by simp

text \<open>
  C9, as stated, fails: the schema declares \<^verbatim>\<open>label: str\<close> with no minimum length, and a
  payload whose only timestamp has the empty label is accepted and stored.
\<close>

theorem POST_api_modules_empty_label_accepted:
  "status (fst (POST_api_modules (\<lambda>s. take 8 s = ''https://'') (Some (\<lambda>name. []))
     ''507f1f77bcf86cd799439011''
     (PDict [(''title'', PStr ''Intro''),
             (''video_url'', PStr ''https://example.com/v.mp4''),
             (''timestamps'', PList [PDict [(''label'', PStr []), (''time'', PInt 0)]])])))
   = 200"
  by (simp add: POST_api_modules_def field_def prim_def create_module_def create_document_def
      insert_one_def Module_dump_def find_one_def dict_get_def Timestamp_dump_def
      dump_optional_def)

text \<open>
  C9, amended: a Timestamp's label must be text and may be empty. A Timestamp with a
  string label, the empty string included, and a non-negative integer time is valid; a
  Module creation payload with a Timestamp whose label is missing or is not a string is
  rejected with the validation error of status 422, the store left as it was.
\<close>

theorem Timestamp_label_is_any_text:
  "(map_of t ''label'' = Some (PStr s) \<and> map_of t ''time'' = Some (PInt n) \<and> 0 \<le> n \<longrightarrow>
      validate_Timestamp (PDict t) = Inr \<lparr>Timestamp.label = s, time = n\<rparr>)
   \<and> ((map_of t ''label'' = None \<or> (\<exists>v. map_of t ''label'' = Some v \<and> (\<forall>s'. v \<noteq> PStr s')))
        \<and> map_of d ''timestamps'' = Some (PList ts) \<and> PDict t \<in> set ts \<longrightarrow>
       (\<exists>loc. POST_api_modules http_url db oid (PDict d) = (Inl (RequestValidationError loc), db)
             \<and> status (fst (POST_api_modules http_url db oid (PDict d))) = 422))"
proof (intro conjI impI)
  assume "map_of t ''label'' = Some (PStr s) \<and> map_of t ''time'' = Some (PInt n) \<and> 0 \<le> n"
  then show "validate_Timestamp (PDict t) = Inr \<lparr>Timestamp.label = s, time = n\<rparr>"
    by (simp add: field_def prim_def)
next
  assume a: "(map_of t ''label'' = None
               \<or> (\<exists>v. map_of t ''label'' = Some v \<and> (\<forall>s'. v \<noteq> PStr s')))
             \<and> map_of d ''timestamps'' = Some (PList ts) \<and> PDict t \<in> set ts"
  show "\<exists>loc. POST_api_modules http_url db oid (PDict d) = (Inl (RequestValidationError loc), db)
             \<and> status (fst (POST_api_modules http_url db oid (PDict d))) = 422"
  proof (cases "validate_Module http_url (PDict d)")
    case (Inl e)
    from POST_rejected [OF this, of db oid] show ?thesis by auto
  next
    case (Inr m)
    from validate_Module_Inr(4) [OF this] a show ?thesis by fastforce
  qed
qed

theorem Timestamp_label_is_any_text_witness:
  "validate_Timestamp (PDict [(''label'', PStr []), (''time'', PInt 0)])
     = Inr \<lparr>Timestamp.label = [], time = 0\<rparr>
   \<and> (\<exists>loc. POST_api_modules (\<lambda>s. take 8 s = ''https://'') (Some (\<lambda>name. []))
               ''507f1f77bcf86cd799439011''
               (PDict [(''title'', PStr ''Intro''),
                       (''video_url'', PStr ''https://example.com/v.mp4''),
                       (''timestamps'', PList [PDict [(''time'', PInt 0)]])])
             = (Inl (RequestValidationError loc), Some (\<lambda>name. [])))"
  using Timestamp_label_is_any_text
    [where t = "[(''label'', PStr []), (''time'', PInt 0)]" and s = "[]" and n = 0]
    Timestamp_label_is_any_text
    [where t = "[(''time'', PInt 0)]"
       and d = "[(''title'', PStr ''Intro''),
                 (''video_url'', PStr ''https://example.com/v.mp4''),
                 (''timestamps'', PList [PDict [(''time'', PInt 0)]])]"
       and ts = "[PDict [(''time'', PInt 0)]]"
       and http_url = "\<lambda>s. take 8 s = ''https://''"
       and db = "Some (\<lambda>name. [])"
       and oid = "''507f1f77bcf86cd799439011''"]
  by simp

subsection \<open>Listing modules\<close>

text \<open>
  C7: for every store and every positive \<open>limit\<close>, \<^verbatim>\<open>GET /api/modules\<close> returns the first
  \<open>limit\<close> module records, remapped: \<open>limit\<close> of them when that many exist, all of them
  otherwise; a request that gives no limit is served with the limit 50.
\<close>

theorem list_modules_capped:
  "0 < l \<Longrightarrow>
     list_modules (Some st) (Some l)
       = Inr (map (\<lambda>d. to_str_id (Some d)) (take (nat l) (st ''module'')))
     \<and> length (map (\<lambda>d. to_str_id (Some d)) (take (nat l) (st ''module'')))
         = min (nat l) (length (st ''module''))
     \<and> GET_api_modules (Some st) (Some l) = list_modules (Some st) (Some l)
     \<and> GET_api_modules (Some st) None = list_modules (Some st) (Some 50)"
  by (simp add: list_modules_def get_documents_def find_docs_def matches_def
      GET_api_modules_def)

theorem list_modules_capped_witness:
  "(0::int) < 2
   \<and> GET_api_modules
        (Some (\<lambda>name. if name = ''module''
                       then [[(''_id'', PObjectId ''65a000000000000000000001'')],
                             [(''_id'', PObjectId ''65a000000000000000000002'')],
                             [(''_id'', PObjectId ''65a000000000000000000003'')],
                             [(''_id'', PObjectId ''65a000000000000000000004'')],
                             [(''_id'', PObjectId ''65a000000000000000000005'')]]
                       else [])) (Some 2)
       = Inr [Some [(''id'', PStr ''65a000000000000000000001'')],
              Some [(''id'', PStr ''65a000000000000000000002'')]]"
  using list_modules_capped
    [of 2 "\<lambda>name. if name = ''module''
                   then [[(''_id'', PObjectId ''65a000000000000000000001'')],
                         [(''_id'', PObjectId ''65a000000000000000000002'')],
                         [(''_id'', PObjectId ''65a000000000000000000003'')],
                         [(''_id'', PObjectId ''65a000000000000000000004'')],
                         [(''_id'', PObjectId ''65a000000000000000000005'')]]
                   else []"]
  by (simp add: dict_get_def)

subsection \<open>The diagnostic endpoint\<close>

text \<open>
  C8: \<^verbatim>\<open>GET /test\<close> returns a report, with status 200, whatever the handle, its answers
  and the environment are; a handle that is absent, an attribute read that raises and a
  collection listing that raises each end as a describing string in the \<^verbatim>\<open>database\<close>
  field of the report.
\<close>

theorem test_database_never_raises:
  "\<exists>r. test_database db name_attr listing eu en = Inr r
      \<and> status (test_database db name_attr listing eu en) = 200
      \<and> (db = None \<longrightarrow> database r = warning_sign @ ''  Available but not initialized'')
      \<and> (\<forall>e. db \<noteq> None \<and> name_attr = Some (Inl e) \<longrightarrow>
             database r = cross_mark @ '' Error: '' @ take 50 (exn_str e))
      \<and> (\<forall>e. db \<noteq> None \<and> (\<forall>e'. name_attr \<noteq> Some (Inl e')) \<and> listing = Inl e \<longrightarrow>
             database r = warning_sign @ ''  Connected but Error: '' @ take 50 (exn_str e))
      \<and> database_url r = PStr (getenv_set eu)
      \<and> database_name r = PStr (getenv_set en)"
  by (auto simp: test_database_def test_database_try_def test_database_listing_def Let_def
      split: option.splits sum.splits)

theorem test_database_never_raises_witness:
  "\<exists>r. test_database (Some (\<lambda>name. [])) (Some (Inr (PStr ''training'')))
          (Inl (Raised ''connection refused'')) None None = Inr r
      \<and> database r = warning_sign @ ''  Connected but Error: connection refused''"
  using test_database_never_raises
    [of "Some (\<lambda>name. [])" "Some (Inr (PStr ''training''))"
        "Inl (Raised ''connection refused'')" None None]
  by auto


subsection \<open>Creating a module and fetching it\<close>




lemma Module_dump_no_id: "map_of (Module_dump m) ''_id'' = None"
  by (simp add: Module_dump_def)

lemma insert_one_generated:
  "map_of d ''_id'' = None \<Longrightarrow>
   insert_one c oid d =
     (if find_one c [(''_id'', PObjectId oid)] \<noteq> None
      then Inl (Raised (''E11000 duplicate key error: _id '' @ repr (PObjectId oid)))
      else Inr (PObjectId oid, c @ [d @ [(''_id'', PObjectId oid)]]))"
  by (simp add: insert_one_def dict_get_def Let_def map_add_def)






subsection \<open>Seeding\<close>

lemma find_one_Nil: "find_one [] flt = None"
  by (simp add: find_one_def)

lemma find_one_Cons:
  "find_one (d # c) flt = (if matches flt d then Some d else find_one c flt)"
  by (simp add: find_one_def)

lemma matches_id_dump:
  "matches [(''_id'', PObjectId a)] (Module_dump m @ [(''_id'', PObjectId b)]) \<longleftrightarrow> b = a"
  by (auto simp: matches_single map_add_def Module_dump_no_id)

lemma create_document_fresh:
  "find_one (st c) [(''_id'', PObjectId oid)] = None \<Longrightarrow>
   create_document (Some st) c oid (Module_dump m)
     = (Inr oid, Some (st(c := st c @ [Module_dump m @ [(''_id'', PObjectId oid)]])))"
  by (simp add: create_document_def insert_one_generated Module_dump_no_id)

lemma samples_three: "\<exists>a b c. samples = [a, b, c]"
  by (simp add: samples_def)

text \<open>
  Were the truth test of the handle to answer true, seeding would do what the handler
  is written for: on an empty module collection, with the store assigning three distinct
  identifiers, the three sample modules are inserted and \<^verbatim>\<open>{status, inserted: 3}\<close> is
  reported, and a further call inserts nothing and reports the count 3; on a non-empty
  module collection the store is left as it is and the number of modules is reported.
\<close>

lemma seed_modules_when_truthy:
  "(st ''module'' = [] \<and> distinct [o1, o2, o3] \<longrightarrow>
      (\<exists>st'. seed_modules (Inr True) (Some st) o1 o2 o3
               = (Inr [(''status'', PStr ''ok''), (''inserted'', PInt 3)], Some st')
            \<and> st' = st(''module'' := map (\<lambda>om. Module_dump (snd om) @ [(''_id'', PObjectId (fst om))])
                                        (zip [o1, o2, o3] samples))
            \<and> length (st' ''module'') = 3
            \<and> seed_modules (Inr True) (Some st') o4 o5 o6
               = (Inr [(''status'', PStr ''ok''), (''message'', PStr ''Modules already exist''),
                       (''count'', PInt 3)], Some st')))
   \<and> (st ''module'' \<noteq> [] \<longrightarrow>
        seed_modules (Inr True) (Some st) o1 o2 o3
          = (Inr [(''status'', PStr ''ok''), (''message'', PStr ''Modules already exist''),
                  (''count'', PInt (int (length (st ''module''))))], Some st))"
proof -
  have nonempty: "seed_modules (Inr True) (Some s) p q r
          = (Inr [(''status'', PStr ''ok''), (''message'', PStr ''Modules already exist''),
                  (''count'', PInt (int (length (s ''module''))))], Some s)"
    if "s ''module'' \<noteq> []" for s p q r
    using that
    by (simp add: seed_modules_def truth_value_def getitem_def count_documents_def find_docs_def matches_def)
  obtain a b c where abc: "samples = [a, b, c]"
    using samples_three by blast
  have empty: "\<exists>st'. seed_modules (Inr True) (Some st) o1 o2 o3
               = (Inr [(''status'', PStr ''ok''), (''inserted'', PInt 3)], Some st')
            \<and> st' = st(''module'' := map (\<lambda>om. Module_dump (snd om) @ [(''_id'', PObjectId (fst om))])
                                        (zip [o1, o2, o3] samples))
            \<and> length (st' ''module'') = 3
            \<and> seed_modules (Inr True) (Some st') o4 o5 o6
               = (Inr [(''status'', PStr ''ok''), (''message'', PStr ''Modules already exist''),
                       (''count'', PInt 3)], Some st')"
    if e: "st ''module'' = []" and d: "distinct [o1, o2, o3]"
  proof -
    let ?st' = "st(''module'' := map (\<lambda>om. Module_dump (snd om) @ [(''_id'', PObjectId (fst om))])
                                        (zip [o1, o2, o3] samples))"
    have all: "create_all (Some st) (zip [o1, o2, o3] samples) = (Inr (), Some ?st')"
      using e d
      by (simp add: abc create_document_fresh find_one_Nil find_one_Cons matches_id_dump)
    have l3: "length samples = 3" by (simp add: abc)
    have one: "seed_modules (Inr True) (Some st) o1 o2 o3
               = (Inr [(''status'', PStr ''ok''), (''inserted'', PInt 3)], Some ?st')"
      using e
      by (simp add: seed_modules_def truth_value_def getitem_def count_documents_def find_docs_def all l3)
    have len: "length (?st' ''module'') = 3" by (simp add: abc)
    then have ne: "?st' ''module'' \<noteq> []" by force
    from nonempty [of ?st' o4 o5 o6] ne len one show ?thesis by simp
  qed
  from nonempty empty show ?thesis by blast
qed

lemma seed_modules_when_truthy_example:
  "distinct [''65a000000000000000000001'', ''65a000000000000000000002'',
             ''65a000000000000000000003'']
   \<and> fst (seed_modules (Inr True) (Some (\<lambda>name. [])) ''65a000000000000000000001''
           ''65a000000000000000000002'' ''65a000000000000000000003'')
       = Inr [(''status'', PStr ''ok''), (''inserted'', PInt 3)]
   \<and> seed_modules (Inr True) (Some (\<lambda>name. [[(''_id'', PObjectId ''65a000000000000000000009'')]]))
         ''65a000000000000000000001'' ''65a000000000000000000002''
         ''65a000000000000000000003''
       = (Inr [(''status'', PStr ''ok''), (''message'', PStr ''Modules already exist''),
               (''count'', PInt 1)],
          Some (\<lambda>name. [[(''_id'', PObjectId ''65a000000000000000000009'')]]))"
  using seed_modules_when_truthy
      [of "\<lambda>name. []" "''65a000000000000000000001''" "''65a000000000000000000002''"
          "''65a000000000000000000003''"]
    seed_modules_when_truthy
      [of "\<lambda>name. [[(''_id'', PObjectId ''65a000000000000000000009'')]]"
          "''65a000000000000000000001''" "''65a000000000000000000002''"
          "''65a000000000000000000003''"]
  by auto

lemma seed_modules_truth_test_raises:
  "seed_modules (Inl e) (Some st) oid1 oid2 oid3 = (Inl (HTTPException 500 (exn_str e)), Some st)"
  by (simp add: seed_modules_def truth_value_def)

lemma seed_modules_no_handle:
  "\<exists>detail. seed_modules handle_bool None oid1 oid2 oid3 = (Inl (HTTPException 500 detail), None)"
proof -
  obtain a b c where abc: "samples = [a, b, c]"
    using samples_three by blast
  show ?thesis
    by (simp add: seed_modules_def truth_value_def create_document_def abc)
qed

text \<open>
  C5 asks that \<^verbatim>\<open>POST /api/seed\<close> on an empty module collection insert the three sample
  modules and report \<^verbatim>\<open>{status, inserted}\<close>. The handler tests the handle with
  \<^verbatim>\<open>if db\<close>; on the driver's \<^verbatim>\<open>Database\<close> the test raises, the handler's own
  \<^verbatim>\<open>except Exception\<close> turns the exception into a 500, and nothing is inserted: with a
  handle at hand and an empty store, the answer is 500 and the store is still empty.
\<close>

theorem seed_modules_truth_test_500:
  "seed_modules
     (Inl (Raised (''Database objects do not implement truth value testing or bool(). ''
                   @ ''Please compare with None instead: database is not None'')))
     (Some (\<lambda>name. []))
     ''65a000000000000000000001'' ''65a000000000000000000002'' ''65a000000000000000000003''
   = (Inl (HTTPException 500
             (''Database objects do not implement truth value testing or bool(). ''
              @ ''Please compare with None instead: database is not None'')),
      Some (\<lambda>name. []))
   \<and> status (fst (seed_modules
         (Inl (Raised (''Database objects do not implement truth value testing or bool(). ''
                       @ ''Please compare with None instead: database is not None'')))
         (Some (\<lambda>name. []))
         ''65a000000000000000000001'' ''65a000000000000000000002''
         ''65a000000000000000000003'')) = 500"
  by (simp add: seed_modules_def truth_value_def)

subsection \<open>Saving progress\<close>

lemma update_first_None:
  "update_first flt fs c = None \<longleftrightarrow> find_docs c flt = []"
  by (induction c) (auto simp: find_docs_def)

lemma update_first_Some:
  assumes "update_first flt fs c = Some c'"
    and "\<And>d. matches flt d \<Longrightarrow> matches flt (set_fields fs d)"
  shows "\<exists>d ds. find_docs c flt = d # ds \<and> find_docs c' flt = set_fields fs d # ds"
  using assms(1)
proof (induction c arbitrary: c')
  case Nil
  then show ?case by simp
next
  case (Cons x xs)
  show ?case
  proof (cases "matches flt x")
    case True
    with Cons.prems assms(2) show ?thesis by (auto simp: find_docs_def)
  next
    case False
    with Cons.prems obtain ys where ys: "update_first flt fs xs = Some ys" and c': "c' = x # ys"
      by auto
    from Cons.IH [OF ys] False c' show ?thesis by (auto simp: find_docs_def)
  qed
qed

lemma set_fields_Progress:
  "map_of (set_fields (Progress_dump p) d) k =
     (if k = ''user_id'' then Some (PStr (Progress.user_id p))
      else if k = ''module_id'' then Some (PStr (Progress.module_id p))
      else if k = ''last_position'' then Some (PInt (last_position p))
      else if k = ''completed'' then Some (PBool (completed p))
      else map_of d k)"
  by (simp add: set_fields_def Progress_dump_def AList.update_conv')

lemma matches_dump_set_fields: "matches (Progress_dump p) (set_fields (Progress_dump p) d)"
  by (simp add: matches_def set_fields_Progress) (simp add: Progress_dump_def)

lemma matches_key_set_fields:
  "matches [(''user_id'', PStr (Progress.user_id p)), (''module_id'', PStr (Progress.module_id p))]
     (set_fields (Progress_dump p) d)"
  by (simp add: matches_def set_fields_Progress)

lemma save_progress_step:
  fixes p :: Progress and oid :: string and st :: database
  defines "key \<equiv> [(''user_id'', PStr (Progress.user_id p)), (''module_id'', PStr (Progress.module_id p))]"
  assumes le: "length (find_docs (st ''progress'') key) \<le> 1"
    and fresh: "find_docs (st ''progress'') key = [] \<Longrightarrow>
                 find_one (st ''progress'') [(''_id'', PObjectId oid)] = None"
  shows "\<exists>st' d. snd (save_progress (Some st) oid p) = Some st'
           \<and> find_docs (st' ''progress'') key = [d] \<and> matches (Progress_dump p) d"
proof (cases "update_first key (Progress_dump p) (st ''progress'')")
  case None
  then have e: "find_docs (st ''progress'') key = []" by (simp add: update_first_None)
  let ?new = "set_fields (Progress_dump p) key @ [(''_id'', PObjectId oid)]"
  have noid: "map_of (set_fields (Progress_dump p) key) ''_id'' = None"
    by (simp add: set_fields_Progress key_def)
  have up: "update_one (st ''progress'') oid key (Progress_dump p) True
              = Inr (st ''progress'' @ [?new])"
    by (simp add: update_one_def None insert_one_generated [OF noid] fresh [OF e])
  have mk: "matches key ?new"
    by (simp add: matches_def key_def map_add_def set_fields_Progress)
  have md: "matches (Progress_dump p) ?new"
    by (simp add: matches_def map_add_def set_fields_Progress) (simp add: Progress_dump_def)
  have "find_docs (st ''progress'' @ [?new]) key = [?new]"
    using e mk by (simp add: find_docs_def)
  with up md show ?thesis
    by (simp add: save_progress_def getitem_def setitem_def key_def [symmetric] Let_def)
next
  case (Some c')
  from update_first_Some [OF Some] matches_key_set_fields [of p]
  obtain d ds where a: "find_docs (st ''progress'') key = d # ds"
    and b: "find_docs c' key = set_fields (Progress_dump p) d # ds"
    unfolding key_def by blast
  from a le have "ds = []" by simp
  with b Some matches_dump_set_fields [of p d] show ?thesis
    by (simp add: save_progress_def getitem_def setitem_def key_def [symmetric] Let_def
        update_one_def)
qed

lemma save_progress_seq_Cons:
  "save_progress_seq db (post # posts)
     = save_progress_seq (snd (save_progress db (fst post) (snd post))) posts"
  by (simp add: save_progress_seq_def)

lemma save_progress_seq_from_one:
  assumes "find_docs (st ''progress'') [(''user_id'', PStr u), (''module_id'', PStr m)] = [d]"
    and "\<forall>post \<in> set posts. Progress.user_id (snd post) = u \<and> Progress.module_id (snd post) = m"
    and "posts \<noteq> []"
  shows "\<exists>st' d'. save_progress_seq (Some st) posts = Some st'
           \<and> find_docs (st' ''progress'') [(''user_id'', PStr u), (''module_id'', PStr m)] = [d']
           \<and> matches (Progress_dump (snd (last posts))) d'"
  using assms
proof (induction posts arbitrary: st d)
  case Nil
  then show ?case by simp
next
  case (Cons x xs)
  from Cons.prems(2) have k: "Progress.user_id (snd x) = u" "Progress.module_id (snd x) = m"
    by auto
  from save_progress_step [of st "snd x" "fst x"] Cons.prems(1) k
  obtain st1 d1 where s1: "snd (save_progress (Some st) (fst x) (snd x)) = Some st1"
    and f1: "find_docs (st1 ''progress'') [(''user_id'', PStr u), (''module_id'', PStr m)] = [d1]"
    and m1: "matches (Progress_dump (snd x)) d1"
    by auto
  show ?case
  proof (cases "xs = []")
    case True
    with s1 f1 m1 show ?thesis by (simp add: save_progress_seq_def)
  next
    case False
    from Cons.prems(2)
    have rest: "\<forall>post \<in> set xs. Progress.user_id (snd post) = u \<and> Progress.module_id (snd post) = m"
      by simp
    from Cons.IH [of st1 d1, OF f1 rest False] False s1 show ?thesis
      by (simp add: save_progress_seq_Cons)
  qed
qed

lemma save_progress_seq_matches:
  assumes "length (find_docs (st ''progress'') [(''user_id'', PStr u), (''module_id'', PStr m)]) \<le> 1"
    and "posts \<noteq> []"
    and "\<forall>post \<in> set posts. Progress.user_id (snd post) = u \<and> Progress.module_id (snd post) = m"
    and "\<forall>post \<in> set posts. find_one (st ''progress'') [(''_id'', PObjectId (fst post))] = None"
  shows "\<exists>st' d. save_progress_seq (Some st) posts = Some st'
           \<and> find_docs (st' ''progress'') [(''user_id'', PStr u), (''module_id'', PStr m)] = [d]
           \<and> matches (Progress_dump (snd (last posts))) d"
proof -
  from assms(2) obtain x xs where px: "posts = x # xs" by (cases posts) auto
  from assms(3) px have k: "Progress.user_id (snd x) = u" "Progress.module_id (snd x) = m"
    by auto
  from assms(4) px have fr: "find_one (st ''progress'') [(''_id'', PObjectId (fst x))] = None"
    by auto
  from save_progress_step [of st "snd x" "fst x"] assms(1) k fr
  obtain st1 d1 where s1: "snd (save_progress (Some st) (fst x) (snd x)) = Some st1"
    and f1: "find_docs (st1 ''progress'') [(''user_id'', PStr u), (''module_id'', PStr m)] = [d1]"
    and m1: "matches (Progress_dump (snd x)) d1"
    by auto
  show ?thesis
  proof (cases "xs = []")
    case True
    with s1 f1 m1 px show ?thesis by (simp add: save_progress_seq_def)
  next
    case False
    from assms(3) px
    have rest: "\<forall>post \<in> set xs. Progress.user_id (snd post) = u \<and> Progress.module_id (snd post) = m"
      by simp
    from save_progress_seq_from_one [of st1 u m d1 xs, OF f1 rest False] px False s1 show ?thesis
      by (simp add: save_progress_seq_Cons)
  qed
qed

text \<open>
  C2: take a store in which at most one Progress document carries the pair
  \<open>(user_id, module_id)\<close>, and a non-empty sequence of POSTs to \<^verbatim>\<open>/api/progress\<close> for that
  pair, the identifiers the store would assign being unused. After the sequence exactly
  one Progress document carries the pair, and its fields are those of the payload posted
  last.
\<close>

theorem save_progress_last_write_wins:
  assumes "length (find_docs (st ''progress'') [(''user_id'', PStr u), (''module_id'', PStr m)]) \<le> 1"
    and "posts \<noteq> []"
    and "\<forall>post \<in> set posts. Progress.user_id (snd post) = u \<and> Progress.module_id (snd post) = m"
    and "\<forall>post \<in> set posts. find_one (st ''progress'') [(''_id'', PObjectId (fst post))] = None"
  shows "\<exists>st' d. save_progress_seq (Some st) posts = Some st'
           \<and> find_docs (st' ''progress'') [(''user_id'', PStr u), (''module_id'', PStr m)] = [d]
           \<and> map_of d ''user_id'' = Some (PStr u)
           \<and> map_of d ''module_id'' = Some (PStr m)
           \<and> map_of d ''last_position'' = Some (PInt (last_position (snd (last posts))))
           \<and> map_of d ''completed'' = Some (PBool (completed (snd (last posts))))"
proof -
  from save_progress_seq_matches [of st u m posts, OF assms] obtain st' d where
    s: "save_progress_seq (Some st) posts = Some st'"
    and f: "find_docs (st' ''progress'') [(''user_id'', PStr u), (''module_id'', PStr m)] = [d]"
    and md: "matches (Progress_dump (snd (last posts))) d"
    by blast
  from assms(2,3) have "Progress.user_id (snd (last posts)) = u"
    and "Progress.module_id (snd (last posts)) = m"
    using last_in_set by blast+
  with md have "map_of d ''user_id'' = Some (PStr u)"
    and "map_of d ''module_id'' = Some (PStr m)"
    and "map_of d ''last_position'' = Some (PInt (last_position (snd (last posts))))"
    and "map_of d ''completed'' = Some (PBool (completed (snd (last posts))))"
    by (simp_all add: matches_def Progress_dump_def)
  with s f show ?thesis by blast
qed

theorem save_progress_last_write_wins_witness:
  "\<exists>st' d. save_progress_seq (Some (\<lambda>name. []))
       [(''65a000000000000000000001'',
         \<lparr>Progress.user_id = ''alice'', module_id = ''m1'', last_position = 10,
          completed = False\<rparr>),
        (''65a000000000000000000002'',
         \<lparr>Progress.user_id = ''alice'', module_id = ''m1'', last_position = 25,
          completed = False\<rparr>),
        (''65a000000000000000000003'',
         \<lparr>Progress.user_id = ''alice'', module_id = ''m1'', last_position = 90,
          completed = True\<rparr>)]
       = Some st'
     \<and> find_docs (st' ''progress'') [(''user_id'', PStr ''alice''), (''module_id'', PStr ''m1'')]
         = [d]
     \<and> map_of d ''user_id'' = Some (PStr ''alice'')
     \<and> map_of d ''module_id'' = Some (PStr ''m1'')
     \<and> map_of d ''last_position'' = Some (PInt 90)
     \<and> map_of d ''completed'' = Some (PBool True)"
  using save_progress_last_write_wins [of "\<lambda>name. []" "''alice''" "''m1''"
       "[(''65a000000000000000000001'',
          \<lparr>Progress.user_id = ''alice'', module_id = ''m1'', last_position = 10,
           completed = False\<rparr>),
         (''65a000000000000000000002'',
          \<lparr>Progress.user_id = ''alice'', module_id = ''m1'', last_position = 25,
           completed = False\<rparr>),
         (''65a000000000000000000003'',
          \<lparr>Progress.user_id = ''alice'', module_id = ''m1'', last_position = 90,
           completed = True\<rparr>)]"]
  by (simp add: find_docs_def find_one_def)

end
